theory Spec2Isabelle
  imports Main
begin

section \<open>File-Sorter settings dialog (settings.py)\<close>

text \<open>
  The dialog shows six checkboxes, one per well-known user folder, and a save button.
  Pressing the button runs \<open>save_settings\<close>: it collects \<open>Path.home() / name\<close> for
  every checked box, emits the list on the signal \<open>settings_saved\<close> and closes the
  window. The embedding follows the method line by line; what the Python gets from
  pathlib and from Qt is modelled below, next to the call that uses it.
\<close>

subsection \<open>Paths\<close>

text \<open>
  Paths are those of pathlib's POSIX flavour. A path is its anchor, which for this
  flavour is the root (empty for a relative path, \<open>/\<close> for an absolute one, \<open>//\<close> when
  the string starts with exactly two slashes), and the components after it.
  \<open>is_absolute()\<close> asks for a root.
\<close>

datatype path = Path (anchor: string) (tail: "string list")

definition is_absolute :: "path \<Rightarrow> bool" where
  "is_absolute p = (anchor p \<noteq> [])"

text \<open>Cutting a string at every slash; the pieces may be empty.\<close>

fun split_slash :: "string \<Rightarrow> string list" where
  "split_slash [] = [[]]"
| "split_slash (c # cs) =
     (if c = CHR ''/'' then [] # split_slash cs
      else (case split_slash cs of
              [] \<Rightarrow> [[c]]
            | x # xs \<Rightarrow> (c # x) # xs))"

text \<open>pathlib drops empty components and \<open>.\<close> when it parses a string.\<close>

definition segments :: "string \<Rightarrow> string list" where
  "segments s = filter (\<lambda>x. x \<noteq> [] \<and> x \<noteq> ''.'') (split_slash s)"

text \<open>The root of a string: two leading slashes are kept, one or three and more give \<open>/\<close>.\<close>

definition posix_root :: "string \<Rightarrow> string" where
  "posix_root s =
     (if take 2 s = ''//'' \<and> take 3 s \<noteq> ''///'' then ''//''
      else if take 1 s = ''/'' then ''/''
      else [])"

text \<open>
  \<open>p / s\<close> (\<open>__truediv__\<close>) for a string \<open>s\<close>: a string that starts with a slash
  replaces \<open>p\<close>, any other string adds its components to \<open>p\<close>.
\<close>

definition truediv :: "path \<Rightarrow> string \<Rightarrow> path" where
  "truediv p s =
     (if take 1 s = ''/'' then Path (posix_root s) (segments s)
      else Path (anchor p) (tail p @ segments s))"

subsection \<open>The world outside the process, and calls that may raise\<close>

text \<open>
  \<open>home_dir\<close> is what the platform reports as the user's home directory, \<open>None\<close> when
  it cannot be determined; \<open>files\<close> is the content of the file system.
\<close>

record world =
  home_dir :: "path option"
  files :: "path \<Rightarrow> string option"

datatype error = RuntimeError

text \<open>A computation reads and may change the world, and returns a value or raises.\<close>

type_synonym 'a io = "world \<Rightarrow> (error + 'a) \<times> world"

definition return_io :: "'a \<Rightarrow> 'a io" where
  "return_io x wd = (Inr x, wd)"

definition bind_io :: "'a io \<Rightarrow> ('a \<Rightarrow> 'b io) \<Rightarrow> 'b io" where
  "bind_io m f wd =
     (case m wd of
        (Inl e, wd') \<Rightarrow> (Inl e, wd')
      | (Inr x, wd') \<Rightarrow> f x wd')"

text \<open>\<open>Path.home()\<close> raises RuntimeError when the home directory cannot be resolved.\<close>

definition Path_home :: "path io" where
  "Path_home wd =
     (case home_dir wd of
        None \<Rightarrow> (Inl RuntimeError, wd)
      | Some h \<Rightarrow> (Inr h, wd))"

subsection \<open>The window\<close>

text \<open>
  The six \<open>QCheckBox\<close> fields hold their checked state. \<open>visible\<close> is the widget's
  visibility, which \<open>close()\<close> clears. \<open>settings_saved\<close> is the signal, kept as the
  sequence of payloads emitted on it so far, oldest first.
\<close>

record SettingsWindow =
  downloads_checkbox :: bool
  pictures_checkbox :: bool
  videos_checkbox :: bool
  documents_checkbox :: bool
  music_checkbox :: bool
  desktop_checkbox :: bool
  visible :: bool
  settings_saved :: "path list list"

definition emit :: "path list \<Rightarrow> SettingsWindow \<Rightarrow> SettingsWindow" where
  "emit ds w = w\<lparr>settings_saved := settings_saved w @ [ds]\<rparr>"

definition close :: "SettingsWindow \<Rightarrow> SettingsWindow" where
  "close w = w\<lparr>visible := False\<rparr>"

subsection \<open>save_settings\<close>

text \<open>\<open>selected_dirs.append(Path.home() / name)\<close>\<close>

definition append_home :: "string \<Rightarrow> path list \<Rightarrow> path list io" where
  "append_home name ds = bind_io Path_home (\<lambda>h. return_io (ds @ [truediv h name]))"

text \<open>Lines 44 to 58: the list starts empty and the six tests run in this order.\<close>

definition selected_dirs :: "SettingsWindow \<Rightarrow> path list io" where
  "selected_dirs w =
     bind_io (if downloads_checkbox w then append_home ''Downloads'' [] else return_io []) (\<lambda>ds.
     bind_io (if pictures_checkbox w then append_home ''Pictures'' ds else return_io ds) (\<lambda>ds.
     bind_io (if videos_checkbox w then append_home ''Videos'' ds else return_io ds) (\<lambda>ds.
     bind_io (if documents_checkbox w then append_home ''Documents'' ds else return_io ds) (\<lambda>ds.
     bind_io (if music_checkbox w then append_home ''Music'' ds else return_io ds) (\<lambda>ds.
     bind_io (if desktop_checkbox w then append_home ''Desktop'' ds else return_io ds) (\<lambda>ds.
     return_io ds))))))"

text \<open>Lines 60 to 65: emit the empty list or the collected one, then close.\<close>

definition save_settings :: "SettingsWindow \<Rightarrow> SettingsWindow io" where
  "save_settings w =
     bind_io (selected_dirs w) (\<lambda>ds.
       return_io (close (if ds = [] then emit [] w else emit ds w)))"

subsection \<open>What the user can do\<close>

text \<open>
  The dialog offers the six checkboxes and the save button, whose \<open>clicked\<close> signal is
  connected to \<open>save_settings\<close>. A click on a checkbox flips it. \<open>perform\<close> is the
  handling of one click; \<open>run\<close> is the event loop over a sequence of clicks. Qt reports
  an exception that a slot raises and goes on with the next event, and the window is
  then as it was before the click, since \<open>save_settings\<close> can raise only before it
  emits.
\<close>

datatype toggle = Downloads | Pictures | Videos | Documents | Music | Desktop

definition toggles :: "toggle list" where
  "toggles = [Downloads, Pictures, Videos, Documents, Music, Desktop]"

fun isChecked :: "SettingsWindow \<Rightarrow> toggle \<Rightarrow> bool" where
  "isChecked w Downloads = downloads_checkbox w"
| "isChecked w Pictures = pictures_checkbox w"
| "isChecked w Videos = videos_checkbox w"
| "isChecked w Documents = documents_checkbox w"
| "isChecked w Music = music_checkbox w"
| "isChecked w Desktop = desktop_checkbox w"

fun setChecked :: "toggle \<Rightarrow> bool \<Rightarrow> SettingsWindow \<Rightarrow> SettingsWindow" where
  "setChecked Downloads b w = w\<lparr>downloads_checkbox := b\<rparr>"
| "setChecked Pictures b w = w\<lparr>pictures_checkbox := b\<rparr>"
| "setChecked Videos b w = w\<lparr>videos_checkbox := b\<rparr>"
| "setChecked Documents b w = w\<lparr>documents_checkbox := b\<rparr>"
| "setChecked Music b w = w\<lparr>music_checkbox := b\<rparr>"
| "setChecked Desktop b w = w\<lparr>desktop_checkbox := b\<rparr>"

datatype action = Click_checkbox toggle | Click_save

fun perform :: "action \<Rightarrow> SettingsWindow \<Rightarrow> SettingsWindow io" where
  "perform (Click_checkbox t) w = return_io (setChecked t (\<not> isChecked w t) w)"
| "perform Click_save w = save_settings w"

fun run :: "action list \<Rightarrow> SettingsWindow \<Rightarrow> world \<Rightarrow> SettingsWindow \<times> world" where
  "run [] w wd = (w, wd)"
| "run (a # as) w wd =
     (case perform a w wd of
        (Inl e, wd') \<Rightarrow> run as w wd'
      | (Inr w', wd') \<Rightarrow> run as w' wd')"

subsection \<open>The specification's vocabulary\<close>

text \<open>The label of each checkbox, which is also the folder name the spec gives it.\<close>

fun folder_name :: "toggle \<Rightarrow> string" where
  "folder_name Downloads = ''Downloads''"
| "folder_name Pictures = ''Pictures''"
| "folder_name Videos = ''Videos''"
| "folder_name Documents = ''Documents''"
| "folder_name Music = ''Music''"
| "folder_name Desktop = ''Desktop''"

text \<open>The spec's resolution of a well-known directory: the folder under the home.\<close>

definition resolve :: "path \<Rightarrow> toggle \<Rightarrow> path" where
  "resolve h t = Path (anchor h) (tail h @ [folder_name t])"

text \<open>The spec's two states of the surface.\<close>

datatype surface = Open | Closed

definition surface_of :: "SettingsWindow \<Rightarrow> surface" where
  "surface_of w = (if visible w then Open else Closed)"

text \<open>The payloads that one call of \<open>save_settings\<close> adds to the signal.\<close>

definition emitted_by :: "SettingsWindow \<Rightarrow> world \<Rightarrow> path list list" where
  "emitted_by w wd =
     (case fst (save_settings w wd) of
        Inl e \<Rightarrow> []
      | Inr w' \<Rightarrow> drop (length (settings_saved w)) (settings_saved w'))"

text \<open>Reading a selection back from a list of paths, by the last component of each.\<close>

definition basename :: "path \<Rightarrow> string" where
  "basename p = (case rev (tail p) of [] \<Rightarrow> [] | n # ns \<Rightarrow> n)"

definition recover :: "path list \<Rightarrow> toggle \<Rightarrow> bool" where
  "recover ds t = (folder_name t \<in> set (map basename ds))"

subsection \<open>Example inputs\<close>

definition example_home :: path where
  "example_home = Path ''/'' [''home'', ''user'']"

definition example_world :: world where
  "example_world = \<lparr>home_dir = Some example_home, files = (\<lambda>p. None)\<rparr>"

text \<open>A world in which the home directory cannot be determined.\<close>

definition homeless_world :: world where
  "homeless_world = \<lparr>home_dir = None, files = (\<lambda>p. None)\<rparr>"

text \<open>A world whose home directory is the relative path \<open>relative/home\<close>.\<close>

definition relative_world :: world where
  "relative_world = \<lparr>home_dir = Some (Path [] [''relative'', ''home'']), files = (\<lambda>p. None)\<rparr>"

text \<open>A visible window with Pictures and Music checked and nothing emitted yet.\<close>

definition example_window :: SettingsWindow where
  "example_window =
     \<lparr>downloads_checkbox = False, pictures_checkbox = True, videos_checkbox = False,
      documents_checkbox = False, music_checkbox = True, desktop_checkbox = False,
      visible = True, settings_saved = []\<rparr>"

text \<open>A visible window with nothing checked.\<close>

definition blank_window :: SettingsWindow where
  "blank_window =
     \<lparr>downloads_checkbox = False, pictures_checkbox = False, videos_checkbox = False,
      documents_checkbox = False, music_checkbox = False, desktop_checkbox = False,
      visible = True, settings_saved = []\<rparr>"

section \<open>Shared facts\<close>

lemma segments_folder_name: "segments (folder_name t) = [folder_name t]"
  by (cases t) (simp_all add: segments_def)

lemma truediv_folder_name: "truediv h (folder_name t) = resolve h t"
  by (cases t) (simp_all add: truediv_def resolve_def segments_def)

lemma append_home_Some:
  "home_dir wd = Some h \<Longrightarrow> append_home (folder_name t) ds wd = (Inr (ds @ [resolve h t]), wd)"
  by (simp add: append_home_def bind_io_def Path_home_def return_io_def truediv_folder_name)

lemma append_home_None:
  "home_dir wd = None \<Longrightarrow> append_home name ds wd = (Inl RuntimeError, wd)"
  by (simp add: append_home_def bind_io_def Path_home_def)

lemma selected_dirs_Some:
  assumes "home_dir wd = Some h"
  shows "selected_dirs w wd = (Inr (map (resolve h) (filter (isChecked w) toggles)), wd)"
  using append_home_Some [OF assms, of Downloads] append_home_Some [OF assms, of Pictures]
    append_home_Some [OF assms, of Videos] append_home_Some [OF assms, of Documents]
    append_home_Some [OF assms, of Music] append_home_Some [OF assms, of Desktop]
  by (simp add: selected_dirs_def bind_io_def return_io_def toggles_def)

lemma selected_dirs_unchecked:
  assumes "\<not> downloads_checkbox w" "\<not> pictures_checkbox w" "\<not> videos_checkbox w"
    "\<not> documents_checkbox w" "\<not> music_checkbox w" "\<not> desktop_checkbox w"
  shows "selected_dirs w wd = (Inr [], wd)"
  using assms by (simp add: selected_dirs_def bind_io_def return_io_def)

lemma bind_io_world:
  assumes "snd (m wd) = wd" and "\<And>x. snd (f x wd) = wd"
  shows "snd (bind_io m f wd) = wd"
  using assms by (cases "m wd") (auto simp: bind_io_def split: sum.splits)

lemma append_home_world: "snd (append_home name ds wd) = wd"
  by (simp add: append_home_def bind_io_def Path_home_def return_io_def split: option.splits)

lemma selected_dirs_world: "snd (selected_dirs w wd) = wd"
  unfolding selected_dirs_def
  by (intro bind_io_world) (simp_all add: append_home_world return_io_def)

lemma save_settings_world: "snd (save_settings w wd) = wd"
  unfolding save_settings_def
  by (intro bind_io_world) (simp_all add: selected_dirs_world return_io_def)

lemma save_settings_Some:
  assumes "home_dir wd = Some h"
  shows "save_settings w wd =
    (Inr (w\<lparr>visible := False,
            settings_saved := settings_saved w @ [map (resolve h) (filter (isChecked w) toggles)]\<rparr>), wd)"
  by (simp add: save_settings_def bind_io_def selected_dirs_Some [OF assms] return_io_def
      close_def emit_def)

lemma save_settings_unchecked:
  assumes "\<not> downloads_checkbox w" "\<not> pictures_checkbox w" "\<not> videos_checkbox w"
    "\<not> documents_checkbox w" "\<not> music_checkbox w" "\<not> desktop_checkbox w"
  shows "save_settings w wd =
    (Inr (w\<lparr>visible := False, settings_saved := settings_saved w @ [[]]\<rparr>), wd)"
  by (simp add: save_settings_def bind_io_def selected_dirs_unchecked [OF assms] return_io_def
      close_def emit_def)

lemma toggles_all: "set toggles = UNIV"
proof -
  have "t \<in> set toggles" for t by (cases t) (simp_all add: toggles_def)
  then show ?thesis by auto
qed

lemma distinct_toggles: "distinct toggles"
  by (simp add: toggles_def)

lemma inj_folder_name: "inj folder_name"
proof (rule injI)
  fix s t assume "folder_name s = folder_name t"
  then show "s = t" by (cases s; cases t) simp_all
qed

lemma inj_resolve: "inj (resolve h)"
  by (rule injI) (simp add: resolve_def inj_eq [OF inj_folder_name])

lemma basename_resolve: "basename (resolve h t) = folder_name t"
  by (simp add: basename_def resolve_def)

lemma emitted_by_Some:
  assumes "home_dir wd = Some h"
  shows "emitted_by w wd = [map (resolve h) (filter (isChecked w) toggles)]"
  by (simp add: emitted_by_def save_settings_Some [OF assms])

lemma isChecked_example_window: "isChecked example_window t = (t \<in> {Pictures, Music})"
  by (cases t) (simp_all add: example_window_def)

lemma isChecked_blank_window: "\<not> isChecked blank_window t"
  by (cases t) (simp_all add: blank_window_def)

lemma home_dir_example_world: "home_dir example_world = Some example_home"
  by (simp add: example_world_def)

lemma filter_checked_cong:
  "\<forall>t. isChecked w t = (t \<in> S) \<Longrightarrow> filter (isChecked w) toggles = filter (\<lambda>t. t \<in> S) toggles"
  by (rule filter_cong) simp_all

lemma set_filter_toggles: "set (filter P toggles) = {t. P t}"
  by (simp add: toggles_all)

section \<open>What a commit emits\<close>

text \<open>
  C1. For every subset \<open>S\<close> of the six toggles, \<open>save_settings\<close> on a window with exactly
  the toggles of \<open>S\<close> checked emits one payload: the signal \<open>settings_saved\<close> holds what
  it held before and then the list of the resolutions of the members of \<open>S\<close> in the
  order Downloads, Pictures, Videos, Documents, Music, Desktop, a list with no other
  element. The window is closed afterwards. The home directory is taken to be
  resolvable, as the specification assumes.
\<close>

theorem save_settings_emits_selection:
  assumes "home_dir wd = Some h" and "\<forall>t. isChecked w t = (t \<in> S)"
  shows "emitted_by w wd = [map (resolve h) (filter (\<lambda>t. t \<in> S) toggles)] \<and>
         (\<exists>w'. save_settings w wd = (Inr w', wd) \<and>
            settings_saved w' =
              settings_saved w @ [map (resolve h) (filter (\<lambda>t. t \<in> S) toggles)] \<and>
            surface_of w' = Closed) \<and>
         set (map (resolve h) (filter (\<lambda>t. t \<in> S) toggles)) = resolve h ` S"
proof -
  have f: "filter (isChecked w) toggles = filter (\<lambda>t. t \<in> S) toggles"
    using assms(2) by (rule filter_checked_cong)
  have "emitted_by w wd = [map (resolve h) (filter (\<lambda>t. t \<in> S) toggles)]"
    using f by (simp add: emitted_by_Some [OF assms(1)])
  moreover have "\<exists>w'. save_settings w wd = (Inr w', wd) \<and>
      settings_saved w' = settings_saved w @ [map (resolve h) (filter (\<lambda>t. t \<in> S) toggles)] \<and>
      surface_of w' = Closed"
    using f by (simp add: save_settings_Some [OF assms(1)] surface_of_def)
  moreover have "set (map (resolve h) (filter (\<lambda>t. t \<in> S) toggles)) = resolve h ` S"
    by (simp add: set_filter_toggles del: set_filter)
  ultimately show ?thesis by simp
qed

theorem save_settings_emits_selection_witness:
  "emitted_by example_window example_world =
     [[Path ''/'' [''home'', ''user'', ''Pictures''], Path ''/'' [''home'', ''user'', ''Music'']]] \<and>
   (\<exists>w'. save_settings example_window example_world = (Inr w', example_world) \<and>
      settings_saved w' =
        [[Path ''/'' [''home'', ''user'', ''Pictures''], Path ''/'' [''home'', ''user'', ''Music'']]] \<and>
      surface_of w' = Closed) \<and>
   set [Path ''/'' [''home'', ''user'', ''Pictures''], Path ''/'' [''home'', ''user'', ''Music'']] =
     resolve example_home ` {Pictures, Music}"
proof -
  have sel: "\<forall>t. isChecked example_window t = (t \<in> {Pictures, Music})"
    by (simp add: isChecked_example_window)
  have s0: "settings_saved example_window = []"
    by (simp add: example_window_def)
  show ?thesis
    using save_settings_emits_selection [OF home_dir_example_world sel]
    by (simp add: toggles_def resolve_def example_home_def s0)
qed

text \<open>
  C2. With no toggle checked, \<open>save_settings\<close> emits the empty list (the signal gets
  one more payload, which is \<open>[]\<close>) and the window is closed afterwards. This holds
  in every world, also where the home directory cannot be resolved, since no path is
  resolved on this run.
\<close>

theorem save_settings_nothing_checked:
  assumes "\<forall>t. \<not> isChecked w t"
  shows "fst (save_settings w wd) = Inr (close (emit [] w)) \<and>
         settings_saved (close (emit [] w)) = settings_saved w @ [[]] \<and>
         surface_of (close (emit [] w)) = Closed"
proof -
  have "\<not> downloads_checkbox w" "\<not> pictures_checkbox w" "\<not> videos_checkbox w"
    "\<not> documents_checkbox w" "\<not> music_checkbox w" "\<not> desktop_checkbox w"
    using assms [rule_format, of Downloads] assms [rule_format, of Pictures]
      assms [rule_format, of Videos] assms [rule_format, of Documents]
      assms [rule_format, of Music] assms [rule_format, of Desktop]
    by simp_all
  then show ?thesis
    by (simp add: save_settings_unchecked close_def emit_def surface_of_def)
qed

theorem save_settings_nothing_checked_witness:
  "fst (save_settings blank_window homeless_world) =
     Inr (blank_window\<lparr>visible := False, settings_saved := [[]]\<rparr>) \<and>
   surface_of blank_window = Open \<and>
   surface_of (blank_window\<lparr>visible := False, settings_saved := [[]]\<rparr>) = Closed"
proof -
  have none: "\<forall>t. \<not> isChecked blank_window t"
    by (simp add: isChecked_blank_window)
  show ?thesis
    using save_settings_nothing_checked [OF none, of homeless_world]
    by (simp add: close_def emit_def blank_window_def surface_of_def)
qed

lemma settings_saved_setChecked: "settings_saved (setChecked t b w) = settings_saved w"
  by (cases t) simp_all

lemma visible_setChecked: "visible (setChecked t b w) = visible w"
  by (cases t) simp_all

lemma isChecked_setChecked: "isChecked (setChecked t b w) t = b"
  by (cases t) simp_all

lemma run_Some:
  assumes "home_dir wd = Some h"
  shows "\<exists>w'. run as w wd = (w', wd) \<and>
           length (settings_saved w') =
             length (settings_saved w) + length (filter (\<lambda>a. a = Click_save) as)"
proof (induction as arbitrary: w)
  case Nil
  show ?case by simp
next
  case (Cons a as)
  show ?case
  proof (cases a)
    case (Click_checkbox t)
    from Cons.IH [of "setChecked t (\<not> isChecked w t) w"] show ?thesis
      by (simp add: Click_checkbox return_io_def settings_saved_setChecked)
  next
    case Click_save
    let ?w1 = "w\<lparr>visible := False,
      settings_saved := settings_saved w @ [map (resolve h) (filter (isChecked w) toggles)]\<rparr>"
    from Cons.IH [of ?w1] show ?thesis
      by (simp add: Click_save save_settings_Some [OF assms])
  qed
qed

section \<open>Emissions and commits\<close>

text \<open>
  C3. With a resolvable home directory, one call of \<open>save_settings\<close> adds exactly one
  payload to the signal, whatever the toggles are; and over any sequence of user
  actions the number of payloads added equals the number of commits in the
  sequence, so nothing is emitted without a commit.
\<close>

theorem one_emission_per_commit:
  assumes "home_dir wd = Some h"
  shows "length (emitted_by w wd) = 1 \<and>
         (\<exists>w'. run as w wd = (w', wd) \<and>
            length (settings_saved w') =
              length (settings_saved w) + length (filter (\<lambda>a. a = Click_save) as))"
  using run_Some [OF assms, of as w] by (simp add: emitted_by_Some [OF assms])

theorem one_emission_per_commit_witness:
  "length (emitted_by example_window example_world) = 1 \<and>
   (\<exists>w'. run [Click_checkbox Videos, Click_save, Click_checkbox Music, Click_save]
            example_window example_world = (w', example_world) \<and>
          length (settings_saved w') = 2)"
  using one_emission_per_commit [OF home_dir_example_world,
      of example_window "[Click_checkbox Videos, Click_save, Click_checkbox Music, Click_save]"]
  by (auto simp: example_window_def)

text \<open>
  C4. The surface has the states Open and Closed. With a resolvable home directory
  every user action returns; a commit ends in Closed and adds the emission in the
  same step; a click on a checkbox flips that checkbox and changes neither the
  surface state nor the signal; no action leaves Closed; and the only change of
  surface state is from Open to Closed, by a commit.
\<close>

theorem surface_state_machine:
  assumes "home_dir wd = Some h"
  shows "\<exists>w'. perform a w wd = (Inr w', wd) \<and>
           (a = Click_save \<longrightarrow>
              surface_of w' = Closed \<and> (\<exists>ds. settings_saved w' = settings_saved w @ [ds])) \<and>
           (a \<noteq> Click_save \<longrightarrow>
              surface_of w' = surface_of w \<and> settings_saved w' = settings_saved w) \<and>
           (\<forall>t. a = Click_checkbox t \<longrightarrow> isChecked w' t = (\<not> isChecked w t)) \<and>
           (surface_of w = Closed \<longrightarrow> surface_of w' = Closed) \<and>
           (surface_of w' \<noteq> surface_of w \<longrightarrow>
              surface_of w = Open \<and> surface_of w' = Closed \<and> a = Click_save)"
proof (cases a)
  case (Click_checkbox t)
  then show ?thesis
    by (simp add: return_io_def surface_of_def settings_saved_setChecked visible_setChecked
        isChecked_setChecked)
next
  case Click_save
  then show ?thesis
    by (simp add: save_settings_Some [OF assms] surface_of_def)
qed

theorem surface_state_machine_witness:
  "perform Click_save example_window example_world =
     (Inr (example_window\<lparr>visible := False,
        settings_saved := [[Path ''/'' [''home'', ''user'', ''Pictures''],
                            Path ''/'' [''home'', ''user'', ''Music'']]]\<rparr>), example_world) \<and>
   surface_of example_window = Open \<and>
   surface_of (example_window\<lparr>visible := False,
        settings_saved := [[Path ''/'' [''home'', ''user'', ''Pictures''],
                            Path ''/'' [''home'', ''user'', ''Music'']]]\<rparr>) = Closed"
  using surface_state_machine [OF home_dir_example_world, of Click_save example_window]
  by (simp add: save_settings_Some [OF home_dir_example_world] surface_of_def toggles_def
      resolve_def example_home_def example_window_def)

lemma selected_dirs_None:
  assumes "home_dir wd = None"
  shows "selected_dirs w wd =
    (if downloads_checkbox w \<or> pictures_checkbox w \<or> videos_checkbox w \<or>
        documents_checkbox w \<or> music_checkbox w \<or> desktop_checkbox w
     then Inl RuntimeError else Inr [], wd)"
  by (simp add: selected_dirs_def bind_io_def return_io_def append_home_None [OF assms])

lemma any_checked:
  "(\<exists>t. isChecked w t) =
     (downloads_checkbox w \<or> pictures_checkbox w \<or> videos_checkbox w \<or>
      documents_checkbox w \<or> music_checkbox w \<or> desktop_checkbox w)"
proof
  assume "\<exists>t. isChecked w t"
  then obtain t where "isChecked w t" ..
  then show "downloads_checkbox w \<or> pictures_checkbox w \<or> videos_checkbox w \<or>
      documents_checkbox w \<or> music_checkbox w \<or> desktop_checkbox w"
    by (cases t) simp_all
next
  assume "downloads_checkbox w \<or> pictures_checkbox w \<or> videos_checkbox w \<or>
      documents_checkbox w \<or> music_checkbox w \<or> desktop_checkbox w"
  then have "isChecked w Downloads \<or> isChecked w Pictures \<or> isChecked w Videos \<or>
      isChecked w Documents \<or> isChecked w Music \<or> isChecked w Desktop"
    by simp
  then show "\<exists>t. isChecked w t" by blast
qed

lemma save_settings_None:
  assumes "home_dir wd = None"
  shows "fst (save_settings w wd) =
    (if \<exists>t. isChecked w t then Inl RuntimeError
     else Inr (w\<lparr>visible := False, settings_saved := settings_saved w @ [[]]\<rparr>))"
  by (simp add: any_checked save_settings_def bind_io_def selected_dirs_None [OF assms]
      return_io_def close_def emit_def)

lemma emitted_by_None:
  assumes "home_dir wd = None"
  shows "emitted_by w wd = (if \<exists>t. isChecked w t then [] else [[]])"
  by (simp add: emitted_by_def save_settings_None [OF assms])

section \<open>Scenarios\<close>

text \<open>
  C5. With a resolvable home directory \<open>h\<close>: a window with exactly Pictures and Music
  checked emits \<open>[h/Pictures, h/Music]\<close>, in that order; a window with all six
  checked emits the six paths in the order Downloads, Pictures, Videos, Documents,
  Music, Desktop.
\<close>

theorem commit_scenarios:
  assumes "home_dir wd = Some h"
  shows "emitted_by (w\<lparr>downloads_checkbox := False, pictures_checkbox := True,
             videos_checkbox := False, documents_checkbox := False,
             music_checkbox := True, desktop_checkbox := False\<rparr>) wd =
           [[Path (anchor h) (tail h @ [''Pictures'']), Path (anchor h) (tail h @ [''Music''])]] \<and>
         emitted_by (w\<lparr>downloads_checkbox := True, pictures_checkbox := True,
             videos_checkbox := True, documents_checkbox := True,
             music_checkbox := True, desktop_checkbox := True\<rparr>) wd =
           [[Path (anchor h) (tail h @ [''Downloads'']), Path (anchor h) (tail h @ [''Pictures'']),
             Path (anchor h) (tail h @ [''Videos'']), Path (anchor h) (tail h @ [''Documents'']),
             Path (anchor h) (tail h @ [''Music'']), Path (anchor h) (tail h @ [''Desktop''])]]"
  by (simp add: emitted_by_Some [OF assms] toggles_def resolve_def)

theorem commit_scenarios_witness:
  "emitted_by example_window example_world =
     [[Path ''/'' [''home'', ''user'', ''Pictures''], Path ''/'' [''home'', ''user'', ''Music'']]] \<and>
   emitted_by (example_window\<lparr>downloads_checkbox := True, videos_checkbox := True,
       documents_checkbox := True, desktop_checkbox := True\<rparr>) example_world =
     [[Path ''/'' [''home'', ''user'', ''Downloads''], Path ''/'' [''home'', ''user'', ''Pictures''],
       Path ''/'' [''home'', ''user'', ''Videos''], Path ''/'' [''home'', ''user'', ''Documents''],
       Path ''/'' [''home'', ''user'', ''Music''], Path ''/'' [''home'', ''user'', ''Desktop'']]]"
  using commit_scenarios [OF home_dir_example_world, of example_window]
  by (simp add: example_window_def example_home_def)

section \<open>The emitted paths\<close>

text \<open>
  C6, as the code has it. With a resolvable home directory \<open>h\<close>: for every checked
  toggle the emitted list holds \<open>h / name\<close> for the toggle's folder name, and every
  element of the list is such a path for a checked toggle: it has the anchor of
  \<open>h\<close>, its components are those of \<open>h\<close> followed by the folder name, and it is
  absolute exactly when \<open>h\<close> is. Nothing in the code makes the home directory
  absolute: where it is a relative path, the emitted paths are relative.
\<close>

theorem emitted_paths_under_home:
  assumes "home_dir wd = Some h"
  shows "\<exists>ds. emitted_by w wd = [ds] \<and>
           (\<forall>t. isChecked w t \<longrightarrow> truediv h (folder_name t) \<in> set ds) \<and>
           (\<forall>p \<in> set ds. is_absolute p = is_absolute h \<and> anchor p = anchor h \<and>
              (\<exists>t. isChecked w t \<and> p = truediv h (folder_name t) \<and>
                   tail p = tail h @ [folder_name t]))"
proof -
  let ?ds = "map (resolve h) (filter (isChecked w) toggles)"
  have "emitted_by w wd = [?ds]"
    by (rule emitted_by_Some [OF assms])
  moreover have "\<forall>t. isChecked w t \<longrightarrow> truediv h (folder_name t) \<in> set ?ds"
    by (simp add: truediv_folder_name toggles_all)
  moreover have "\<forall>p \<in> set ?ds. is_absolute p = is_absolute h \<and> anchor p = anchor h \<and>
      (\<exists>t. isChecked w t \<and> p = truediv h (folder_name t) \<and> tail p = tail h @ [folder_name t])"
  proof
    fix p assume "p \<in> set ?ds"
    then obtain t where t: "isChecked w t" "p = resolve h t" by auto
    from t(2) have "is_absolute p = is_absolute h" "anchor p = anchor h"
      by (simp_all add: is_absolute_def resolve_def)
    moreover from t have "isChecked w t \<and> p = truediv h (folder_name t) \<and>
        tail p = tail h @ [folder_name t]"
      by (simp add: truediv_folder_name) (simp add: resolve_def)
    ultimately show "is_absolute p = is_absolute h \<and> anchor p = anchor h \<and>
      (\<exists>t. isChecked w t \<and> p = truediv h (folder_name t) \<and> tail p = tail h @ [folder_name t])"
      by blast
  qed
  ultimately show ?thesis by blast
qed

theorem emitted_paths_under_home_witness:
  "\<exists>ds. emitted_by example_window example_world = [ds] \<and>
     truediv example_home ''Music'' \<in> set ds \<and>
     truediv example_home ''Music'' = Path ''/'' [''home'', ''user'', ''Music''] \<and>
     is_absolute (truediv example_home ''Music'') = is_absolute example_home \<and>
     is_absolute example_home"
proof -
  have ab: "is_absolute example_home"
    by (simp add: is_absolute_def example_home_def)
  have m: "isChecked example_window Music"
    by (simp add: example_window_def)
  from emitted_paths_under_home [OF home_dir_example_world, of example_window]
  obtain ds where ds: "emitted_by example_window example_world = [ds]"
    "\<forall>t. isChecked example_window t \<longrightarrow> truediv example_home (folder_name t) \<in> set ds"
    "\<forall>p \<in> set ds. is_absolute p = is_absolute example_home \<and> anchor p = anchor example_home \<and>
       (\<exists>t. isChecked example_window t \<and> p = truediv example_home (folder_name t) \<and>
            tail p = tail example_home @ [folder_name t])"
    by blast
  from ds(2) m have "truediv example_home ''Music'' \<in> set ds"
    by (metis folder_name.simps(5))
  moreover from this ds(3)
  have "is_absolute (truediv example_home ''Music'') = is_absolute example_home"
    by blast
  moreover have "truediv example_home ''Music'' = Path ''/'' [''home'', ''user'', ''Music'']"
    by (simp add: truediv_def segments_def example_home_def)
  ultimately show ?thesis using ds(1) ab by blast
qed

text \<open>
  The claim as the specification words it promises absolute paths. With the home
  directory \<open>relative/home\<close> and Pictures and Music checked, the emitted paths are
  \<open>relative/home/Pictures\<close> and \<open>relative/home/Music\<close>, which are not absolute.
\<close>

theorem emitted_paths_relative_counterexample:
  "emitted_by example_window relative_world =
     [[Path [] [''relative'', ''home'', ''Pictures''],
       Path [] [''relative'', ''home'', ''Music'']]] \<and>
   \<not> is_absolute (Path [] [''relative'', ''home'', ''Pictures'']) \<and>
   \<not> is_absolute (Path [] [''relative'', ''home'', ''Music''])"
proof -
  have "home_dir relative_world = Some (Path [] [''relative'', ''home''])"
    by (simp add: relative_world_def)
  then show ?thesis
    by (simp add: emitted_by_Some toggles_def resolve_def example_window_def is_absolute_def)
qed

section \<open>Errors\<close>

lemma save_settings_raises:
  assumes "home_dir wd = None" and "isChecked w t"
  shows "save_settings w wd = (Inl RuntimeError, wd)"
proof -
  from assms(2) have "\<exists>t. isChecked w t" ..
  then have "fst (save_settings w wd) = Inl RuntimeError"
    by (simp add: save_settings_None [OF assms(1)])
  then show ?thesis
    by (simp add: prod_eq_iff save_settings_world)
qed

text \<open>
  C7, as the code has it. \<open>save_settings\<close> has one error condition. It returns a
  window, for each of the 64 states of the six checkboxes, where the home directory
  is resolvable, and in every world where no toggle is checked. Where the home
  directory cannot be resolved and a toggle is checked, \<open>Path.home()\<close> raises
  RuntimeError, nothing catches it, and the call ends with that error.
\<close>

theorem save_settings_raises_only_without_home:
  "(home_dir wd = None \<and> (\<exists>t. isChecked w t) \<longrightarrow>
      save_settings w wd = (Inl RuntimeError, wd)) \<and>
   (home_dir wd \<noteq> None \<or> (\<forall>t. \<not> isChecked w t) \<longrightarrow>
      (\<exists>w'. save_settings w wd = (Inr w', wd)))"
proof (intro conjI impI)
  assume "home_dir wd = None \<and> (\<exists>t. isChecked w t)"
  then show "save_settings w wd = (Inl RuntimeError, wd)"
    by (auto intro: save_settings_raises)
next
  assume a: "home_dir wd \<noteq> None \<or> (\<forall>t. \<not> isChecked w t)"
  show "\<exists>w'. save_settings w wd = (Inr w', wd)"
  proof (cases "home_dir wd")
    case (Some h)
    then show ?thesis by (simp add: save_settings_Some)
  next
    case None
    with a have "\<not> (\<exists>t. isChecked w t)" by simp
    then have "fst (save_settings w wd) =
        Inr (w\<lparr>visible := False, settings_saved := settings_saved w @ [[]]\<rparr>)"
      by (simp add: save_settings_None [OF None])
    then have "save_settings w wd =
        (Inr (w\<lparr>visible := False, settings_saved := settings_saved w @ [[]]\<rparr>), wd)"
      by (simp add: prod_eq_iff save_settings_world)
    then show ?thesis by blast
  qed
qed

theorem save_settings_raises_only_without_home_witness:
  "save_settings (example_window\<lparr>settings_saved := [[]]\<rparr>) homeless_world =
     (Inl RuntimeError, homeless_world) \<and>
   (\<exists>w'. save_settings example_window example_world = (Inr w', example_world)) \<and>
   (\<exists>w'. save_settings blank_window homeless_world = (Inr w', homeless_world))"
proof -
  have n: "home_dir homeless_world = None"
    by (simp add: homeless_world_def)
  have c: "\<exists>t. isChecked (example_window\<lparr>settings_saved := [[]]\<rparr>) t"
    by (rule exI [of _ Music]) (simp add: example_window_def)
  have s: "home_dir example_world \<noteq> None"
    by (simp add: home_dir_example_world)
  have b: "\<forall>t. \<not> isChecked blank_window t"
    by (simp add: isChecked_blank_window)
  show ?thesis
    using save_settings_raises_only_without_home
            [of homeless_world "example_window\<lparr>settings_saved := [[]]\<rparr>"]
      save_settings_raises_only_without_home [of example_world example_window]
      save_settings_raises_only_without_home [of homeless_world blank_window]
      n c s b
    by blast
qed

text \<open>
  The claim as the specification words it has no failure at all. With the home
  directory unresolvable and Pictures and Music checked, the call raises.
\<close>

theorem save_settings_raises_counterexample:
  "save_settings example_window homeless_world = (Inl RuntimeError, homeless_world)"
proof -
  have "home_dir homeless_world = None"
    by (simp add: homeless_world_def)
  moreover have "isChecked example_window Music"
    by (simp add: example_window_def)
  ultimately show ?thesis
    by (rule save_settings_raises)
qed

section \<open>The file system\<close>

text \<open>
  C8. \<open>save_settings\<close> leaves the world as it found it, whether it returns or
  raises, and what it returns does not depend on the content of the file system.
\<close>

theorem save_settings_frame:
  "snd (save_settings w wd) = wd \<and>
   fst (save_settings w (wd\<lparr>files := f\<rparr>)) = fst (save_settings w wd)"
proof (cases "home_dir wd")
  case None
  then have "home_dir (wd\<lparr>files := f\<rparr>) = None" by simp
  then show ?thesis
    by (simp add: save_settings_world save_settings_None None)
next
  case (Some h)
  then have "home_dir (wd\<lparr>files := f\<rparr>) = Some h" by simp
  then show ?thesis
    by (simp add: save_settings_world save_settings_Some Some)
qed

section \<open>Reading the selection back\<close>

text \<open>
  C9. With a resolvable home directory, the emitted list has no duplicates, has
  as many elements as there are checked toggles, determines the checked state of
  every toggle (by \<open>recover\<close>), and two windows that emit the same list in the
  same world have the same toggles checked.
\<close>

lemma recover_emitted:
  "recover (map (resolve h) (filter (isChecked w) toggles)) t = isChecked w t"
proof -
  have "set (map basename (map (resolve h) (filter (isChecked w) toggles))) =
      folder_name ` {t. isChecked w t}"
    by (simp add: basename_resolve image_image toggles_all del: set_filter set_map)
      (simp add: toggles_all image_def basename_resolve)
  then show ?thesis
    by (simp only: recover_def) (simp add: inj_image_mem_iff [OF inj_folder_name])
qed

theorem selection_recoverable:
  assumes "home_dir wd = Some h"
  shows "\<exists>ds. emitted_by w wd = [ds] \<and> distinct ds \<and>
           length ds = card {t. isChecked w t} \<and>
           (\<forall>t. recover ds t = isChecked w t) \<and>
           (\<forall>w2. emitted_by w2 wd = emitted_by w wd \<longrightarrow>
              (\<forall>t. isChecked w2 t = isChecked w t))"
proof -
  let ?ds = "map (resolve h) (filter (isChecked w) toggles)"
  have e: "emitted_by w wd = [?ds]"
    by (rule emitted_by_Some [OF assms])
  have d: "distinct ?ds"
    by (simp add: distinct_map distinct_toggles inj_on_subset [OF inj_resolve])
  have "length ?ds = card (set (filter (isChecked w) toggles))"
    by (simp add: distinct_card distinct_toggles del: set_filter)
  then have l: "length ?ds = card {t. isChecked w t}"
    by (simp add: toggles_all)
  have r: "\<forall>t. recover ?ds t = isChecked w t"
    by (simp add: recover_emitted)
  have i: "\<forall>w2. emitted_by w2 wd = emitted_by w wd \<longrightarrow> (\<forall>t. isChecked w2 t = isChecked w t)"
  proof (intro allI impI)
    fix w2 t assume "emitted_by w2 wd = emitted_by w wd"
    then have "map (resolve h) (filter (isChecked w2) toggles) = ?ds"
      by (simp add: emitted_by_Some [OF assms])
    then have "recover (map (resolve h) (filter (isChecked w2) toggles)) t = recover ?ds t"
      by simp
    then show "isChecked w2 t = isChecked w t"
      by (simp only: recover_emitted)
  qed
  from e d l r i show ?thesis by blast
qed

theorem selection_recoverable_witness:
  "\<exists>ds. emitted_by example_window example_world = [ds] \<and> distinct ds \<and>
     length ds = card {t. isChecked example_window t} \<and>
     recover ds Music \<and> \<not> recover ds Videos"
proof -
  from selection_recoverable [OF home_dir_example_world, of example_window]
  obtain ds where ds: "emitted_by example_window example_world = [ds]" "distinct ds"
    "length ds = card {t. isChecked example_window t}"
    "\<forall>t. recover ds t = isChecked example_window t"
    by blast
  from ds(4) have "recover ds Music" "\<not> recover ds Videos"
    by (simp_all add: isChecked_example_window)
  with ds(1-3) show ?thesis by blast
qed

section \<open>Determinism\<close>

text \<open>
  C10. Two calls of \<open>save_settings\<close> on windows with the same states of the six
  checkboxes, in worlds with the same home directory, emit the same: nothing else
  in the window or the world has an influence.
\<close>

theorem save_settings_deterministic:
  assumes "\<forall>t. isChecked w1 t = isChecked w2 t" and "home_dir wd1 = home_dir wd2"
  shows "emitted_by w1 wd1 = emitted_by w2 wd2"
proof -
  have f: "filter (isChecked w1) toggles = filter (isChecked w2) toggles"
    using assms(1) by (intro filter_cong) simp_all
  show ?thesis
  proof (cases "home_dir wd1")
    case None
    with assms(2) have "home_dir wd2 = None" by simp
    with None assms(1) show ?thesis
      by (simp add: emitted_by_None)
  next
    case (Some h)
    with assms(2) have "home_dir wd2 = Some h" by simp
    with Some f show ?thesis
      by (simp add: emitted_by_Some)
  qed
qed

theorem save_settings_deterministic_witness:
  "emitted_by example_window example_world =
   emitted_by (example_window\<lparr>visible := False, settings_saved := [[], [example_home]]\<rparr>)
     (example_world\<lparr>files := (\<lambda>p. Some ''x'')\<rparr>)"
proof -
  have c: "\<forall>t. isChecked example_window t =
      isChecked (example_window\<lparr>visible := False, settings_saved := [[], [example_home]]\<rparr>) t"
  proof
    fix t show "isChecked example_window t =
      isChecked (example_window\<lparr>visible := False, settings_saved := [[], [example_home]]\<rparr>) t"
      by (cases t) simp_all
  qed
  have h: "home_dir example_world = home_dir (example_world\<lparr>files := (\<lambda>p. Some ''x'')\<rparr>)"
    by simp
  show ?thesis
    using save_settings_deterministic [OF c h] .
qed

end
